theory Spec2Isabelle
  imports Complex_Main
begin

section \<open>OmniLens: commit records and the tech-debt scorer\<close>

text \<open>
  The Python dataclass \<^verbatim>\<open>CommitInfo\<close> (\<^verbatim>\<open>src/omnilens/__main__.py\<close>).  The type of
  the \<^verbatim>\<open>date\<close> field is \<^verbatim>\<open>datetime\<close>, a library type; it is a type parameter here.
  Python's unbounded \<^verbatim>\<open>int\<close> is \<^typ>\<open>int\<close>.  Python's \<^verbatim>\<open>float\<close> is read as \<^typ>\<open>real\<close>:
  every formula below is the source's formula in exact arithmetic, and rounding
  of IEEE doubles is outside this development.
\<close>

record 'd CommitInfo =
  hash :: string
  author_name :: string
  author_email :: string
  date :: 'd
  message :: string
  full_message :: string
  category :: string
  scope :: "string option"
  is_breaking :: bool
  breaking_description :: "string option"
  insertions :: int
  deletions :: int
  files_changed :: int

record TechDebtMetrics =
  total_commits :: int
  debt_commits :: int
  feature_commits :: int
  maintenance_commits :: int
  debt_percentage :: real
  feature_percentage :: real
  maintenance_percentage :: real
  health_score :: real
  complexity_score :: real
  maintainability_index :: real

text \<open>The three class attributes of \<^verbatim>\<open>TechDebtCalculator\<close>, as the source lists them.\<close>

definition DEBT_CATEGORIES :: "string list" where
  "DEBT_CATEGORIES = [''chore'', ''refactor'', ''style'', ''ci'']"

definition FEATURE_CATEGORIES :: "string list" where
  "FEATURE_CATEGORIES = [''feat'', ''bugfix'', ''features'', ''bugfixes'']"

definition MAINTENANCE_CATEGORIES :: "string list" where
  "MAINTENANCE_CATEGORIES = [''docs'', ''test'', ''docs'', ''test'']"

text \<open>
  \<^verbatim>\<open>sum(1 for c in commits if c.category in cats)\<close>.
\<close>

definition count_in :: "string list \<Rightarrow> 'd CommitInfo list \<Rightarrow> int" where
  "count_in cats commits = int (length (filter (\<lambda>c. category c \<in> set cats) commits))"

text \<open>
  The optional argument \<^verbatim>\<open>code_metrics: Dict = None\<close> is an optional association
  list from keys to numbers.  \<^verbatim>\<open>d.get(k, dflt) if d else dflt'\<close>: a dictionary is
  false when it is \<^verbatim>\<open>None\<close> or empty.
\<close>

type_synonym code_metrics = "(string \<times> real) list option"

definition dict_truthy :: "code_metrics \<Rightarrow> bool" where
  "dict_truthy cm = (case cm of None \<Rightarrow> False | Some d \<Rightarrow> d \<noteq> [])"

definition dict_get :: "code_metrics \<Rightarrow> string \<Rightarrow> real \<Rightarrow> real" where
  "dict_get cm k dflt =
     (case cm of None \<Rightarrow> dflt
      | Some d \<Rightarrow> (case map_of d k of None \<Rightarrow> dflt | Some v \<Rightarrow> v))"

text \<open>\<^verbatim>\<open>TechDebtCalculator.calculate_metrics\<close>, statement by statement.\<close>

definition calculate_metrics :: "'d CommitInfo list \<Rightarrow> code_metrics \<Rightarrow> TechDebtMetrics" where
  "calculate_metrics commits cm =
     (let total = int (length commits) in
      if total = 0 then
        \<lparr>total_commits = 0, debt_commits = 0, feature_commits = 0,
         maintenance_commits = 0, debt_percentage = 0, feature_percentage = 0,
         maintenance_percentage = 0, health_score = 0, complexity_score = 0,
         maintainability_index = 0\<rparr>
      else
        let debt = count_in DEBT_CATEGORIES commits;
            features = count_in FEATURE_CATEGORIES commits;
            maintenance = count_in MAINTENANCE_CATEGORIES commits;
            debt_pct = (if total > 0 then (real_of_int debt / real_of_int total) * 100 else 0);
            feature_pct = (if total > 0 then (real_of_int features / real_of_int total) * 100 else 0);
            maintenance_pct =
              (if total > 0 then (real_of_int maintenance / real_of_int total) * 100 else 0);
            health = (if debt_pct > 0 then min 100 ((feature_pct / debt_pct) * 50 + 50) else 100);
            avg_complexity = (if dict_truthy cm then dict_get cm ''complexity'' 0 else 0);
            cscore = max 0 (100 - avg_complexity);
            maintainability =
              (if dict_truthy cm then dict_get cm ''maintainability_index'' 75 else 75)
        in \<lparr>total_commits = total, debt_commits = debt, feature_commits = features,
            maintenance_commits = maintenance, debt_percentage = debt_pct,
            feature_percentage = feature_pct, maintenance_percentage = maintenance_pct,
            health_score = health, complexity_score = cscore,
            maintainability_index = maintainability\<rparr>)"

section \<open>Properties of the tech-debt scorer\<close>

lemma count_in_nonneg: "0 \<le> count_in cats commits"
  by (simp add: count_in_def)

lemma count_in_pos_iff:
  "0 < count_in cats commits \<longleftrightarrow> (\<exists>c \<in> set commits. category c \<in> set cats)"
  by (auto simp: count_in_def filter_empty_conv)

text \<open>
  C6.  For the empty commit list the scorer returns the metrics value whose ten
  fields are all 0, whatever complexity metrics are passed; the function is total,
  so the value is returned and nothing is raised.
\<close>

theorem C6_empty_commits_all_zero:
  "calculate_metrics [] cm =
     \<lparr>total_commits = 0, debt_commits = 0, feature_commits = 0,
      maintenance_commits = 0, debt_percentage = 0, feature_percentage = 0,
      maintenance_percentage = 0, health_score = 0, complexity_score = 0,
      maintainability_index = 0\<rparr>"
  by (simp add: calculate_metrics_def)

text \<open>A commit of a given category, every other field blank: the input of the examples.\<close>

definition commit_of_category :: "string \<Rightarrow> unit CommitInfo" where
  "commit_of_category cat =
     \<lparr>hash = [], author_name = [], author_email = [], date = (), message = [],
      full_message = [], category = cat, scope = None, is_breaking = False,
      breaking_description = None, insertions = 0, deletions = 0, files_changed = 0\<rparr>"

lemma complexity_score_nonempty:
  "commits \<noteq> [] \<Longrightarrow>
   complexity_score (calculate_metrics commits cm) =
     max 0 (100 - (if dict_truthy cm then dict_get cm ''complexity'' 0 else 0))"
  by (simp add: calculate_metrics_def Let_def)

text \<open>
  C4 (as stated it fails).  With one commit and no complexity metrics the score is
  \<open>max(0, 100 - 0) = 100\<close>, not 0: the source defaults the average complexity,
  not the score, to 0.
\<close>

theorem C4_counterexample:
  "complexity_score (calculate_metrics [commit_of_category ''features''] None) = 100
   \<and> complexity_score (calculate_metrics [commit_of_category ''features''] None) \<noteq> 0"
  by (simp add: calculate_metrics_def Let_def dict_truthy_def)

text \<open>
  C4 (amended).  For a non-empty commit list the complexity score is
  \<open>max(0, 100 - averageComplexity)\<close> when a metrics dictionary is supplied, where
  \<open>averageComplexity\<close> is its \<^verbatim>\<open>complexity\<close> entry (0 when the entry is absent), and
  it is 100 when no metrics are supplied.  For the empty commit list it is 0 in
  both cases.
\<close>

theorem C4_complexity_score:
  "(commits \<noteq> [] \<longrightarrow>
      complexity_score (calculate_metrics commits (Some d)) =
        max 0 (100 - (case map_of d ''complexity'' of None \<Rightarrow> 0 | Some v \<Rightarrow> v))
      \<and> complexity_score (calculate_metrics commits None) = 100)
   \<and> complexity_score (calculate_metrics ([] :: 'd CommitInfo list) (Some d)) = 0
   \<and> complexity_score (calculate_metrics ([] :: 'd CommitInfo list) None) = 0"
proof -
  have some: "(if dict_truthy (Some d) then dict_get (Some d) ''complexity'' 0 else 0)
      = (case map_of d ''complexity'' of None \<Rightarrow> 0 | Some v \<Rightarrow> v)"
    by (cases d) (simp_all add: dict_truthy_def dict_get_def)
  have none: "(if dict_truthy None then dict_get None ''complexity'' 0 else 0) = 0"
    by (simp add: dict_truthy_def)
  have empty: "complexity_score (calculate_metrics ([] :: 'd CommitInfo list) m) = 0" for m
    by (simp add: calculate_metrics_def)
  show ?thesis
    using some none empty by (simp add: complexity_score_nonempty)
qed

theorem C4_complexity_score_witness:
  "[commit_of_category ''chore''] \<noteq> []
   \<and> complexity_score
        (calculate_metrics [commit_of_category ''chore''] (Some [(''complexity'', 30)])) = 70
   \<and> complexity_score (calculate_metrics [commit_of_category ''chore''] None) = 100"
  using C4_complexity_score [of "[commit_of_category ''chore'']" "[(''complexity'', 30)]"]
  by auto

lemma health_score_nonempty:
  assumes "commits \<noteq> []"
  shows "health_score (calculate_metrics commits cm) =
     (if 0 < debt_percentage (calculate_metrics commits cm)
      then min 100 (feature_percentage (calculate_metrics commits cm)
                      / debt_percentage (calculate_metrics commits cm) * 50 + 50)
      else 100)"
  using assms by (simp add: calculate_metrics_def Let_def)

lemma debt_percentage_nonempty:
  assumes "commits \<noteq> []"
  shows "debt_percentage (calculate_metrics commits cm) =
     real_of_int (count_in DEBT_CATEGORIES commits) / real (length commits) * 100"
  using assms by (simp add: calculate_metrics_def Let_def)

lemma feature_percentage_nonneg: "0 \<le> feature_percentage (calculate_metrics commits cm)"
  by (simp add: calculate_metrics_def Let_def count_in_nonneg)

lemma debt_percentage_pos_iff:
  assumes "commits \<noteq> []"
  shows "0 < debt_percentage (calculate_metrics commits cm)
     \<longleftrightarrow> (\<exists>c \<in> set commits. category c \<in> set DEBT_CATEGORIES)"
proof -
  have "0 < real (length commits)" using assms by simp
  then have "0 < real_of_int (count_in DEBT_CATEGORIES commits) / real (length commits) * 100
      \<longleftrightarrow> 0 < count_in DEBT_CATEGORIES commits"
    by (simp add: zero_less_divide_iff zero_less_mult_iff)
  then show ?thesis
    by (simp add: debt_percentage_nonempty [OF assms] count_in_pos_iff)
qed

text \<open>
  C10.  For a non-empty commit list the health score lies in \<open>[50, 100]\<close>: it is 100
  when no commit's category is in the debt set, and otherwise it is
  \<open>min(100, (feature_percentage / debt_percentage) * 50 + 50)\<close>, whose second
  argument is at least 50.  A health score below 50 arises from the empty list
  only, where it is 0.
\<close>

theorem C10_health_score_range:
  "(commits \<noteq> [] \<longrightarrow>
      50 \<le> health_score (calculate_metrics commits cm)
      \<and> health_score (calculate_metrics commits cm) \<le> 100
      \<and> ((\<forall>c \<in> set commits. category c \<notin> set DEBT_CATEGORIES) \<longrightarrow>
            health_score (calculate_metrics commits cm) = 100)
      \<and> ((\<exists>c \<in> set commits. category c \<in> set DEBT_CATEGORIES) \<longrightarrow>
            health_score (calculate_metrics commits cm) =
              min 100 (feature_percentage (calculate_metrics commits cm)
                         / debt_percentage (calculate_metrics commits cm) * 50 + 50)
            \<and> 50 \<le> feature_percentage (calculate_metrics commits cm)
                         / debt_percentage (calculate_metrics commits cm) * 50 + 50))
   \<and> (health_score (calculate_metrics commits cm) < 50 \<longrightarrow>
        commits = [] \<and> health_score (calculate_metrics commits cm) = 0)"
proof -
  let ?m = "calculate_metrics commits cm"
  let ?q = "feature_percentage ?m / debt_percentage ?m * 50 + 50"
  have ratio: "50 \<le> ?q" if "0 < debt_percentage ?m"
  proof -
    have "0 \<le> feature_percentage ?m / debt_percentage ?m"
      using that feature_percentage_nonneg [of commits cm] by simp
    then have "0 \<le> feature_percentage ?m / debt_percentage ?m * 50"
      by (rule mult_nonneg_nonneg) simp
    then show ?thesis by linarith
  qed
  have nonempty: "50 \<le> health_score ?m \<and> health_score ?m \<le> 100
      \<and> ((\<forall>c \<in> set commits. category c \<notin> set DEBT_CATEGORIES) \<longrightarrow> health_score ?m = 100)
      \<and> ((\<exists>c \<in> set commits. category c \<in> set DEBT_CATEGORIES) \<longrightarrow>
            health_score ?m = min 100 ?q \<and> 50 \<le> ?q)"
    if ne: "commits \<noteq> []"
  proof (cases "0 < debt_percentage ?m")
    case True
    then have debt: "\<exists>c \<in> set commits. category c \<in> set DEBT_CATEGORIES"
      using debt_percentage_pos_iff [OF ne, of cm] by simp
    have h: "health_score ?m = min 100 ?q"
      using True health_score_nonempty [OF ne, of cm] by simp
    show ?thesis using h ratio [OF True] debt by auto
  next
    case False
    then have nodebt: "\<forall>c \<in> set commits. category c \<notin> set DEBT_CATEGORIES"
      using debt_percentage_pos_iff [OF ne, of cm] by blast
    have h: "health_score ?m = 100"
      using False health_score_nonempty [OF ne, of cm] by simp
    show ?thesis using h nodebt by auto
  qed
  have low: "commits = [] \<and> health_score ?m = 0" if "health_score ?m < 50"
  proof (cases "commits = []")
    case True
    then show ?thesis by (simp add: calculate_metrics_def)
  next
    case False
    then show ?thesis using nonempty that by simp
  qed
  show ?thesis using nonempty low by blast
qed

theorem C10_health_score_range_witness:
  "[commit_of_category ''chore'', commit_of_category ''ci'', commit_of_category ''features'']
     \<noteq> []
   \<and> health_score (calculate_metrics
        [commit_of_category ''chore'', commit_of_category ''ci'',
         commit_of_category ''features''] None) = 75
   \<and> (50::real) \<le> 75 \<and> (75::real) \<le> 100
   \<and> health_score (calculate_metrics [commit_of_category ''features''] None) = 100"
proof -
  let ?cs = "[commit_of_category ''chore'', commit_of_category ''ci'',
              commit_of_category ''features'']"
  have debt: "\<exists>c \<in> set ?cs. category c \<in> set DEBT_CATEGORIES"
    by (simp add: commit_of_category_def DEBT_CATEGORIES_def)
  have d: "debt_percentage (calculate_metrics ?cs None) = 200 / 3"
    by (simp add: calculate_metrics_def Let_def count_in_def commit_of_category_def
        DEBT_CATEGORIES_def)
  have f: "feature_percentage (calculate_metrics ?cs None) = 100 / 3"
    by (simp add: calculate_metrics_def Let_def count_in_def commit_of_category_def
        FEATURE_CATEGORIES_def)
  have ne: "?cs \<noteq> []" by simp
  have "health_score (calculate_metrics ?cs None) =
      min 100 (feature_percentage (calculate_metrics ?cs None)
                 / debt_percentage (calculate_metrics ?cs None) * 50 + 50)"
    using C10_health_score_range [of ?cs None] ne debt by blast
  then have mixed: "health_score (calculate_metrics ?cs None) = 75"
    by (simp add: d f)
  have nodebt: "\<forall>c \<in> set [commit_of_category ''features'']. category c \<notin> set DEBT_CATEGORIES"
    by (simp add: commit_of_category_def DEBT_CATEGORIES_def)
  have ne': "[commit_of_category ''features''] \<noteq> []" by simp
  have clean: "health_score (calculate_metrics [commit_of_category ''features''] None) = 100"
    using C10_health_score_range [of "[commit_of_category ''features'']" None] ne' nodebt
    by blast
  show ?thesis using mixed clean by simp
qed


section \<open>Python strings\<close>

text \<open>
  A Python \<^verbatim>\<open>str\<close> is a \<^typ>\<open>string\<close>.  HOL characters are bytes, so the model is
  about ASCII text: a byte above 127 is neither white space nor a word character
  here, whereas Python classifies the code point it belongs to.

  \<open>isspace\<close> is \<^verbatim>\<open>str.isspace\<close> on one ASCII character (tab to carriage return,
  the four separators 28 to 31, and the blank): the set that \<^verbatim>\<open>str.strip()\<close>
  removes and that \<^verbatim>\<open>\s\<close> matches.  \<open>isword\<close> is the class \<^verbatim>\<open>\w\<close>.
\<close>

definition TAB :: char where "TAB = CHR 0x09"
definition NL :: char where "NL = CHR 0x0A"

definition isspace :: "char \<Rightarrow> bool" where
  "isspace c = (let n = (of_char c :: nat) in (9 \<le> n \<and> n \<le> 13) \<or> (28 \<le> n \<and> n \<le> 32))"

definition isword :: "char \<Rightarrow> bool" where
  "isword c = (let n = (of_char c :: nat) in
     (48 \<le> n \<and> n \<le> 57) \<or> (65 \<le> n \<and> n \<le> 90) \<or> n = 95 \<or> (97 \<le> n \<and> n \<le> 122))"

text \<open>\<^verbatim>\<open>s.lstrip()\<close>, \<^verbatim>\<open>s.rstrip()\<close>, \<^verbatim>\<open>s.strip()\<close> and \<^verbatim>\<open>s.startswith(p)\<close>.\<close>

definition lstrip :: "string \<Rightarrow> string" where "lstrip s = dropWhile isspace s"
definition rstrip :: "string \<Rightarrow> string" where "rstrip s = rev (dropWhile isspace (rev s))"
definition strip :: "string \<Rightarrow> string" where "strip s = rstrip (lstrip s)"

definition startswith :: "string \<Rightarrow> string \<Rightarrow> bool" where
  "startswith s p = (take (length p) s = p)"

text \<open>
  \<^verbatim>\<open>s.split(sep)\<close> for a non-empty separator: the pieces between the occurrences
  of \<open>sep\<close>, found from left to right without overlap.  \<open>cur\<close> holds the piece
  being read, reversed.  (Python raises \<^verbatim>\<open>ValueError\<close> on an empty separator; every
  separator of the source is a non-empty constant.)
\<close>

function split_from :: "string \<Rightarrow> string \<Rightarrow> string \<Rightarrow> string list" where
  "split_from sep cur [] = [rev cur]"
| "split_from sep cur (x # xs) =
     (if sep \<noteq> [] \<and> startswith (x # xs) sep
      then rev cur # split_from sep [] (drop (length sep) (x # xs))
      else split_from sep (x # cur) xs)"
  by pat_completeness auto
termination
  by (relation "measure (\<lambda>(sep, cur, s). length s)") (auto simp: neq_Nil_conv)

definition py_split :: "string \<Rightarrow> string \<Rightarrow> string list" where
  "py_split sep s = split_from sep [] s"

section \<open>Regular expressions\<close>

text \<open>
  The patterns of the source are sequences of the items below, matched the way
  Python's \<^verbatim>\<open>re\<close> does: from left to right, with backtracking, a greedy item
  trying its longest alternative first and a lazy one its shortest.
  \<^item> \<open>Chr c\<close>: one character of the class \<open>c\<close> (\<open>lit x\<close>: the character \<open>x\<close>);
  \<^item> \<open>Star c\<close>, \<open>Plus c\<close>: \<^verbatim>\<open>c*\<close> and \<^verbatim>\<open>c+\<close>; \<open>Lazy c\<close>: \<^verbatim>\<open>c*?\<close>;
  \<^item> \<open>Opt g\<close>: \<^verbatim>\<open>(?:g)?\<close>; \<open>Grp n g\<close>: the capturing group number \<open>n\<close>;
  \<^item> \<open>WordB\<close>: \<^verbatim>\<open>\b\<close>; \<open>Bos\<close>: \<^verbatim>\<open>^\<close>; \<open>Eos\<close>: \<^verbatim>\<open>$\<close>; \<open>Eol\<close>: \<^verbatim>\<open>$\<close> under
    \<^verbatim>\<open>re.MULTILINE\<close>;
  \<^item> \<open>Close n s\<close> is internal: it ends group \<open>n\<close>, opened when the input left
    was \<open>s\<close>.
\<close>

datatype rx =
    Chr "char \<Rightarrow> bool"
  | Star "char \<Rightarrow> bool"
  | Plus "char \<Rightarrow> bool"
  | Lazy "char \<Rightarrow> bool"
  | Opt "rx list"
  | Grp nat "rx list"
  | Close nat string
  | WordB
  | Bos
  | Eos
  | Eol

primrec rx_size :: "rx \<Rightarrow> nat" where
  "rx_size (Chr c) = 1"
| "rx_size (Star c) = 1"
| "rx_size (Plus c) = 1"
| "rx_size (Lazy c) = 1"
| "rx_size (Opt g) = Suc (sum_list (map rx_size g))"
| "rx_size (Grp n g) = Suc (Suc (sum_list (map rx_size g)))"
| "rx_size (Close n s) = 1"
| "rx_size WordB = 1"
| "rx_size Bos = 1"
| "rx_size Eos = 1"
| "rx_size Eol = 1"

text \<open>
  \<open>rx_match rs p s caps\<close> matches the items \<open>rs\<close> at the front of \<open>s\<close>; \<open>p\<close> is
  the character before \<open>s\<close> in the whole subject (\<open>None\<close> at its start), which
  \<^verbatim>\<open>\b\<close> and \<^verbatim>\<open>^\<close> look at.  The result is the input left after the match and
  the text of the groups that took part.
\<close>

definition word_before :: "char option \<Rightarrow> bool" where
  "word_before p = (case p of None \<Rightarrow> False | Some c \<Rightarrow> isword c)"

definition word_after :: "string \<Rightarrow> bool" where
  "word_after s = (case s of [] \<Rightarrow> False | c # _ \<Rightarrow> isword c)"

type_synonym caps = "(nat \<times> string) list"

function (sequential) rx_match :: "rx list \<Rightarrow> char option \<Rightarrow> string \<Rightarrow> caps \<Rightarrow> (string \<times> caps) option" where
  "rx_match [] p s caps = Some (s, caps)"
| "rx_match (Chr c # rs) p [] caps = None"
| "rx_match (Chr c # rs) p (x # xs) caps = (if c x then rx_match rs (Some x) xs caps else None)"
| "rx_match (Star c # rs) p [] caps = rx_match rs p [] caps"
| "rx_match (Star c # rs) p (x # xs) caps =
     (if c x
      then (case rx_match (Star c # rs) (Some x) xs caps of
              Some r \<Rightarrow> Some r
            | None \<Rightarrow> rx_match rs p (x # xs) caps)
      else rx_match rs p (x # xs) caps)"
| "rx_match (Plus c # rs) p [] caps = None"
| "rx_match (Plus c # rs) p (x # xs) caps =
     (if c x then rx_match (Star c # rs) (Some x) xs caps else None)"
| "rx_match (Lazy c # rs) p [] caps = rx_match rs p [] caps"
| "rx_match (Lazy c # rs) p (x # xs) caps =
     (case rx_match rs p (x # xs) caps of
        Some r \<Rightarrow> Some r
      | None \<Rightarrow> if c x then rx_match (Lazy c # rs) (Some x) xs caps else None)"
| "rx_match (Opt g # rs) p s caps =
     (case rx_match (g @ rs) p s caps of
        Some r \<Rightarrow> Some r
      | None \<Rightarrow> rx_match rs p s caps)"
| "rx_match (Grp n g # rs) p s caps = rx_match (g @ Close n s # rs) p s caps"
| "rx_match (Close n s0 # rs) p s caps =
     rx_match rs p s ((n, take (length s0 - length s) s0) # caps)"
| "rx_match (WordB # rs) p s caps =
     (if word_before p \<noteq> word_after s then rx_match rs p s caps else None)"
| "rx_match (Bos # rs) p s caps = (if p = None then rx_match rs p s caps else None)"
| "rx_match (Eos # rs) p s caps = (if s = [] \<or> s = [NL] then rx_match rs p s caps else None)"
| "rx_match (Eol # rs) p s caps =
     (if s = [] \<or> hd s = NL then rx_match rs p s caps else None)"
  by pat_completeness auto
termination
  by (relation "inv_image (less_than <*lex*> less_than)
        (\<lambda>(rs, p, s, caps). (length s, sum_list (map rx_size rs)))") auto

definition lit :: "char \<Rightarrow> rx" where
  "lit c = Chr (\<lambda>x. x = c)"

section \<open>The commit-history miner\<close>

text \<open>\<^verbatim>\<open>CONVENTIONAL_RE = re.compile(r'^(\w+)(?:\(([^)]+)\))?(!)?:\s*(.*)$')\<close>\<close>

definition CONVENTIONAL_RE :: "rx list" where
  "CONVENTIONAL_RE =
     [Bos, Grp 1 [Plus isword],
      Opt [lit CHR ''('', Grp 2 [Plus (\<lambda>c. c \<noteq> CHR '')'')], lit CHR '')''],
      Opt [Grp 3 [lit CHR ''!'']],
      lit CHR '':'', Star isspace, Grp 4 [Star (\<lambda>c. c \<noteq> NL)], Eos]"


text \<open>
  \<^verbatim>\<open>int(s)\<close> on a string, in base 10: white space around (for ASCII text CPython
  skips the C white space only), an optional sign, then digits with single
  underscores between them.  \<open>None\<close> is \<^verbatim>\<open>ValueError\<close>.  The limit on the number of
  digits that recent CPython versions can be configured with is not modelled.
\<close>

definition isspace_c :: "char \<Rightarrow> bool" where
  "isspace_c c = (let n = (of_char c :: nat) in (9 \<le> n \<and> n \<le> 13) \<or> n = 32)"

definition isdigit :: "char \<Rightarrow> bool" where
  "isdigit c = (let n = (of_char c :: nat) in 48 \<le> n \<and> n \<le> 57)"

definition digit_val :: "char \<Rightarrow> int" where
  "digit_val c = int (of_char c) - 48"

fun parse_digits :: "int \<Rightarrow> bool \<Rightarrow> string \<Rightarrow> int option" where
  "parse_digits acc prev_digit [] = (if prev_digit then Some acc else None)"
| "parse_digits acc prev_digit (c # cs) =
     (if isdigit c then parse_digits (acc * 10 + digit_val c) True cs
      else if c = CHR ''_'' \<and> prev_digit then parse_digits acc False cs
      else None)"

definition py_int :: "string \<Rightarrow> int option" where
  "py_int s =
     (case rev (dropWhile isspace_c (rev (dropWhile isspace_c s))) of
        [] \<Rightarrow> None
      | c # cs \<Rightarrow>
          if c = CHR ''-'' then map_option uminus (parse_digits 0 False cs)
          else if c = CHR ''+'' then parse_digits 0 False cs
          else parse_digits 0 False (c # cs))"

definition COMMIT_DELIMITER :: string where
  "COMMIT_DELIMITER = ''==COMMIT_BOUNDARY==''"

definition FIELD_DELIMITER :: string where
  "FIELD_DELIMITER = ''==FIELD_BOUNDARY==''"

definition CAT_MAP :: "(string \<times> string) list" where
  "CAT_MAP =
     [(''feat'', ''features''), (''fix'', ''bugfixes''), (''perf'', ''refactoring''),
      (''refactor'', ''refactoring''), (''docs'', ''docs''), (''test'', ''test''),
      (''chore'', ''chore''), (''ci'', ''ci''), (''style'', ''style''), (''build'', ''build''),
      (''revert'', ''reverts''), (''merge'', ''merges'')]"

text \<open>
  One round of the loop \<^verbatim>\<open>for stat_line in lines[1:]\<close> of \<^verbatim>\<open>get_history\<close>, on
  the running \<^verbatim>\<open>(ins, outs, files)\<close>.  The two additions stand in one \<^verbatim>\<open>try\<close>:
  when the first \<^verbatim>\<open>int()\<close> raises \<^verbatim>\<open>ValueError\<close> neither sum changes, when the
  second raises the first sum has changed already.
\<close>

definition stat_step :: "int \<times> int \<times> int \<Rightarrow> string \<Rightarrow> int \<times> int \<times> int" where
  "stat_step acc stat_line =
     (case acc of (ins, outs, files) \<Rightarrow>
        if TAB \<in> set stat_line then
          let parts = py_split [TAB] stat_line in
          if length parts \<ge> 3 then
            (case (if parts ! 0 \<noteq> ''-'' then py_int (parts ! 0) else Some 0) of
               None \<Rightarrow> (ins, outs, files + 1)
             | Some a \<Rightarrow>
                 (case (if parts ! 1 \<noteq> ''-'' then py_int (parts ! 1) else Some 0) of
                    None \<Rightarrow> (ins + a, outs, files + 1)
                  | Some b \<Rightarrow> (ins + a, outs + b, files + 1)))
          else acc
        else acc)"

text \<open>
  The match of \<^verbatim>\<open>CONVENTIONAL_RE\<close> against the subject and the four values
  \<^verbatim>\<open>category, scope, is_breaking, msg\<close> taken from it.  \<^verbatim>\<open>is_breaking\<close> is
  \<^verbatim>\<open>bool(breaking)\<close>, the truth value of group 3.  Groups 1 and 4 take part in
  every match.
\<close>

definition classify_subject :: "string \<Rightarrow> string \<times> string option \<times> bool \<times> string" where
  "classify_subject commit_message =
     (case rx_match CONVENTIONAL_RE None commit_message [] of
        Some (rest, groups) \<Rightarrow>
          (case map_of groups 1 of
             None \<Rightarrow> ''other''
           | Some ctype \<Rightarrow> (case map_of CAT_MAP ctype of None \<Rightarrow> ''other'' | Some cat \<Rightarrow> cat),
           map_of groups 2,
           (case map_of groups 3 of None \<Rightarrow> False | Some breaking \<Rightarrow> breaking \<noteq> []),
           (case map_of groups 4 of None \<Rightarrow> [] | Some msg \<Rightarrow> msg))
      | None \<Rightarrow> (''other'', None, False, commit_message))"

text \<open>
  The body of the loop \<^verbatim>\<open>for chunk in chunks\<close>: \<open>None\<close> where the source runs
  \<^verbatim>\<open>continue\<close>, the record it appends otherwise.  \<^verbatim>\<open>datetime.fromisoformat\<close> is a
  parameter, \<open>None\<close> being its \<^verbatim>\<open>ValueError\<close>.  No other statement of the body
  can raise: the indices 0 to 3 of \<open>meta\<close> and 0, 1 of \<open>parts\<close> are in range
  behind the length tests.
\<close>

definition parse_chunk :: "(string \<Rightarrow> 'd option) \<Rightarrow> string \<Rightarrow> 'd CommitInfo option" where
  "parse_chunk fromisoformat chunk =
     (if strip chunk = [] then None
      else
        case py_split [NL] (strip chunk) of
          [] \<Rightarrow> None
        | l0 # stat_lines \<Rightarrow>
            if strip l0 = [] then None
            else
              let meta = py_split FIELD_DELIMITER l0 in
              if length meta < 4 then None
              else
                case foldl stat_step (0, 0, 0) stat_lines of (ins, outs, files) \<Rightarrow>
                let commit_message = meta ! 3 in
                case classify_subject commit_message of (cat, scope', brk, msg) \<Rightarrow>
                case fromisoformat (meta ! 2) of
                  None \<Rightarrow> None
                | Some commit_date \<Rightarrow>
                    Some \<lparr>hash = meta ! 0, author_name = meta ! 1, author_email = [],
                          date = commit_date, message = msg, full_message = commit_message,
                          category = cat, scope = scope', is_breaking = brk,
                          breaking_description = None, insertions = ins, deletions = outs,
                          files_changed = files\<rparr>)"

text \<open>
  The loop over the chunks, with the list \<^verbatim>\<open>commits\<close> it appends to, and
  \<^verbatim>\<open>get_history\<close> from the output of the \<^verbatim>\<open>git log\<close> process on: \<open>None\<close> is a
  failed or timed-out process, for which the source returns the empty list.
\<close>

fun history_loop ::
  "(string \<Rightarrow> 'd option) \<Rightarrow> 'd CommitInfo list \<Rightarrow> string list \<Rightarrow> 'd CommitInfo list" where
  "history_loop fromisoformat commits [] = commits"
| "history_loop fromisoformat commits (chunk # chunks) =
     history_loop fromisoformat
       (case parse_chunk fromisoformat chunk of
          None \<Rightarrow> commits
        | Some c \<Rightarrow> commits @ [c])
       chunks"

definition get_history :: "(string \<Rightarrow> 'd option) \<Rightarrow> string option \<Rightarrow> 'd CommitInfo list" where
  "get_history fromisoformat output =
     (case output of
        None \<Rightarrow> []
      | Some raw_log \<Rightarrow> history_loop fromisoformat [] (py_split COMMIT_DELIMITER raw_log))"

text \<open>The header line and a numstat line of a chunk, as \<^verbatim>\<open>git log\<close> prints them.\<close>

definition header_line :: "string \<Rightarrow> string \<Rightarrow> string \<Rightarrow> string \<Rightarrow> string" where
  "header_line h a d s = h @ FIELD_DELIMITER @ a @ FIELD_DELIMITER @ d @ FIELD_DELIMITER @ s"

definition numstat_line :: "string \<Rightarrow> string \<Rightarrow> string \<Rightarrow> string" where
  "numstat_line i d path = i @ [TAB] @ d @ [TAB] @ path"

section \<open>Properties of the commit-history miner\<close>

lemma history_loop_map_filter:
  "history_loop f commits chunks = commits @ List.map_filter (parse_chunk f) chunks"
  by (induction chunks arbitrary: commits) (auto simp: List.map_filter_simps split: option.splits)

text \<open>
  The fields of a chunk's first line, \<^verbatim>\<open>chunk.strip().split('\n')[0]\<close> split on the
  field delimiter, and the chunks the source calls malformed: fewer than four
  fields.  A blank chunk has one (empty) field.
\<close>

definition header_fields :: "string \<Rightarrow> string list" where
  "header_fields chunk =
     (case py_split [NL] (strip chunk) of [] \<Rightarrow> [] | l0 # rest \<Rightarrow> py_split FIELD_DELIMITER l0)"

definition malformed :: "string \<Rightarrow> bool" where
  "malformed chunk = (length (header_fields chunk) < 4)"

lemma parse_chunk_malformed: "malformed chunk \<Longrightarrow> parse_chunk f chunk = None"
  by (auto simp: malformed_def header_fields_def parse_chunk_def Let_def split: list.splits)

lemma map_filter_drop_None:
  "(\<And>x. x \<in> set xs \<Longrightarrow> \<not> P x \<Longrightarrow> g x = None) \<Longrightarrow>
   List.map_filter g (filter P xs) = List.map_filter g xs"
  by (induction xs) (auto simp: List.map_filter_simps split: option.splits)

lemma split_from_not_Nil: "split_from sep cur s \<noteq> []"
  by (induction sep cur s rule: split_from.induct) auto

lemma hd_split_from1:
  "hd (split_from [c] cur s) = rev cur @ takeWhile (\<lambda>y. y \<noteq> c) s"
  by (induction s arbitrary: cur) (auto simp: startswith_def)

lemma hd_split_from:
  "\<exists>rest. split_from [c] cur s = (rev cur @ takeWhile (\<lambda>y. y \<noteq> c) s) # rest"
  using split_from_not_Nil [of "[c]" cur s] hd_split_from1 [of c cur s]
  by (cases "split_from [c] cur s") auto

lemma strip_head:
  assumes "strip s \<noteq> []"
  shows "\<exists>x xs. strip s = x # xs \<and> \<not> isspace x"
proof -
  from assms have l: "lstrip s \<noteq> []" by (auto simp: strip_def rstrip_def)
  then obtain x xs where xs: "lstrip s = x # xs" by (cases "lstrip s") auto
  then have nx: "\<not> isspace x"
    unfolding lstrip_def by (metis hd_dropWhile list.sel(1) list.distinct(1))
  have "dropWhile isspace (rev xs @ [x]) = dropWhile isspace (rev xs) @ [x]"
    using nx by (induction "rev xs" arbitrary: xs) (auto simp: dropWhile_append)
  then have "strip s = x # rev (dropWhile isspace (rev xs))"
    by (simp add: strip_def rstrip_def xs)
  then show ?thesis using nx by blast
qed

lemma nonspace_head_strip: "\<not> isspace x \<Longrightarrow> strip (x # xs) \<noteq> []"
proof -
  assume nx: "\<not> isspace x"
  have "dropWhile isspace (rev xs @ [x]) \<noteq> []"
    using nx by (simp add: dropWhile_append)
  then show ?thesis using nx by (simp add: strip_def lstrip_def rstrip_def)
qed

lemma isspace_NL: "isspace NL"
  by (simp add: isspace_def NL_def)

lemma first_line_not_blank:
  assumes "strip chunk \<noteq> []" and "py_split [NL] (strip chunk) = l0 # rest"
  shows "strip l0 \<noteq> []"
proof -
  obtain x xs where s: "strip chunk = x # xs" and nx: "\<not> isspace x"
    using strip_head [OF assms(1)] by blast
  have "x \<noteq> NL" using nx isspace_NL by auto
  moreover obtain r where "split_from [NL] [] (x # xs) = (rev [] @ takeWhile (\<lambda>y. y \<noteq> NL) (x # xs)) # r"
    using hd_split_from [of NL "[]" "x # xs"] by blast
  ultimately have "l0 = x # takeWhile (\<lambda>y. y \<noteq> NL) xs"
    using assms(2) by (simp add: py_split_def s)
  then show ?thesis using nonspace_head_strip [OF nx] by simp
qed

lemma header_fields_blank: "strip chunk = [] \<Longrightarrow> header_fields chunk = [[]]"
  by (simp add: header_fields_def py_split_def)

lemma parse_chunk_wellformed:
  assumes "\<not> malformed chunk" and "f (header_fields chunk ! 2) = Some d"
  shows "\<exists>r. parse_chunk f chunk = Some r \<and> hash r = header_fields chunk ! 0
      \<and> author_name r = header_fields chunk ! 1 \<and> date r = d
      \<and> full_message r = header_fields chunk ! 3"
proof -
  have ne: "strip chunk \<noteq> []"
    using assms(1) header_fields_blank [of chunk] by (auto simp: malformed_def)
  obtain l0 rest where sp: "py_split [NL] (strip chunk) = l0 # rest"
    using hd_split_from [of NL "[]" "strip chunk"] by (auto simp: py_split_def)
  have l0: "strip l0 \<noteq> []" using first_line_not_blank [OF ne sp] .
  have hf: "header_fields chunk = py_split FIELD_DELIMITER l0"
    by (simp add: header_fields_def sp)
  show ?thesis
    using assms ne l0
    by (auto simp: parse_chunk_def sp hf [symmetric] malformed_def Let_def split: prod.splits)
qed

text \<open>
  C7.  For every raw log: a chunk whose first line splits into fewer than four
  fields yields no record; the list returned is the list of the records of the
  other chunks, in their order; and each of those with a date that parses does
  yield a record, with the hash, author, date and subject of its header, which
  is in the list.  \<open>get_history\<close> is a total function with no error value: no
  statement of the loop raises, the two \<^verbatim>\<open>ValueError\<close>s being handled in the source.
\<close>

theorem C7_malformed_chunk_dropped:
  "(\<forall>c \<in> set (py_split COMMIT_DELIMITER raw_log). malformed c \<longrightarrow> parse_chunk f c = None)
   \<and> get_history f (Some raw_log) =
       List.map_filter (parse_chunk f)
         (filter (\<lambda>c. \<not> malformed c) (py_split COMMIT_DELIMITER raw_log))
   \<and> (\<forall>c \<in> set (py_split COMMIT_DELIMITER raw_log). \<forall>d.
        \<not> malformed c \<and> f (header_fields c ! 2) = Some d \<longrightarrow>
        (\<exists>r \<in> set (get_history f (Some raw_log)).
           parse_chunk f c = Some r \<and> hash r = header_fields c ! 0
           \<and> author_name r = header_fields c ! 1 \<and> date r = d
           \<and> full_message r = header_fields c ! 3))"
proof (intro conjI ballI allI impI)
  let ?cs = "py_split COMMIT_DELIMITER raw_log"
  have all: "get_history f (Some raw_log) = List.map_filter (parse_chunk f) ?cs"
    by (simp add: get_history_def history_loop_map_filter)
  have drop: "List.map_filter (parse_chunk f) (filter (\<lambda>c. \<not> malformed c) ?cs)
      = List.map_filter (parse_chunk f) ?cs"
    by (rule map_filter_drop_None) (simp add: parse_chunk_malformed)
  show "get_history f (Some raw_log)
      = List.map_filter (parse_chunk f) (filter (\<lambda>c. \<not> malformed c) ?cs)"
    using all drop by simp
  show "parse_chunk f c = None" if "malformed c" for c
    using that by (rule parse_chunk_malformed)
  show "\<exists>r \<in> set (get_history f (Some raw_log)).
           parse_chunk f c = Some r \<and> hash r = header_fields c ! 0
           \<and> author_name r = header_fields c ! 1 \<and> date r = d
           \<and> full_message r = header_fields c ! 3"
    if c: "c \<in> set ?cs" and wf: "\<not> malformed c \<and> f (header_fields c ! 2) = Some d" for c d
  proof -
    obtain r where r: "parse_chunk f c = Some r" "hash r = header_fields c ! 0"
        "author_name r = header_fields c ! 1" "date r = d"
        "full_message r = header_fields c ! 3"
      using parse_chunk_wellformed [of c f d] wf by blast
    have "r \<in> set (get_history f (Some raw_log))"
      unfolding all using c r(1) by (force simp: List.map_filter_def)
    then show ?thesis using r by blast
  qed
qed

text \<open>A log of two chunks, the first one without field delimiters.\<close>

definition malformed_chunk :: string where
  "malformed_chunk = [NL] @ ''not a header line'' @ [NL]"

definition wellformed_chunk :: string where
  "wellformed_chunk =
     [NL] @ header_line ''a1b2'' ''Ann'' ''2024-01-01T10:00:00+00:00'' ''fix(core): handle Y''
     @ [NL]"

definition example_log :: string where
  "example_log = COMMIT_DELIMITER @ malformed_chunk @ COMMIT_DELIMITER @ wellformed_chunk"

lemma example_log_chunks:
  "py_split COMMIT_DELIMITER example_log = [[], malformed_chunk, wellformed_chunk]"
  by code_simp

lemma example_log_malformed:
  "malformed []" "malformed malformed_chunk" "\<not> malformed wellformed_chunk"
  by code_simp+

lemma example_log_record:
  "parse_chunk Some wellformed_chunk =
     Some \<lparr>hash = ''a1b2'', author_name = ''Ann'', author_email = [],
           date = ''2024-01-01T10:00:00+00:00'', message = ''handle Y'',
           full_message = ''fix(core): handle Y'', category = ''bugfixes'',
           scope = Some ''core'', is_breaking = False, breaking_description = None,
           insertions = 0, deletions = 0, files_changed = 0\<rparr>"
  by code_simp

theorem C7_malformed_chunk_dropped_witness:
  "malformed_chunk \<in> set (py_split COMMIT_DELIMITER example_log)
   \<and> malformed malformed_chunk
   \<and> parse_chunk Some malformed_chunk = None
   \<and> get_history Some (Some example_log) =
       [\<lparr>hash = ''a1b2'', author_name = ''Ann'', author_email = [],
         date = ''2024-01-01T10:00:00+00:00'', message = ''handle Y'',
         full_message = ''fix(core): handle Y'', category = ''bugfixes'',
         scope = Some ''core'', is_breaking = False, breaking_description = None,
         insertions = 0, deletions = 0, files_changed = 0\<rparr>]"
proof -
  note inst = C7_malformed_chunk_dropped [of example_log Some]
  have mem: "malformed_chunk \<in> set (py_split COMMIT_DELIMITER example_log)"
    unfolding example_log_chunks by simp
  have none: "parse_chunk Some malformed_chunk = None"
    using inst mem example_log_malformed(2) by blast
  have "get_history Some (Some example_log) =
      List.map_filter (parse_chunk Some)
        (filter (\<lambda>c. \<not> malformed c) (py_split COMMIT_DELIMITER example_log))"
    using inst by blast
  also have "\<dots> = List.map_filter (parse_chunk Some) [wellformed_chunk]"
    unfolding example_log_chunks using example_log_malformed by simp
  finally show ?thesis
    using mem none example_log_malformed(2)
    by (simp add: List.map_filter_simps example_log_record)
qed

text \<open>
  The numstat lines of a chunk are the lines after its first with at least three
  tab-separated fields; the value of a field is the integer it spells, and 0 for
  \<^verbatim>\<open>-\<close>.  A field is well formed when it is \<^verbatim>\<open>-\<close> or \<^verbatim>\<open>int()\<close> accepts it.
\<close>

definition numstat_lines :: "string \<Rightarrow> string list" where
  "numstat_lines chunk =
     filter (\<lambda>l. 3 \<le> length (py_split [TAB] l)) (tl (py_split [NL] (strip chunk)))"

definition numstat_value :: "string \<Rightarrow> int" where
  "numstat_value f = (if f = ''-'' then 0 else case py_int f of None \<Rightarrow> 0 | Some n \<Rightarrow> n)"

definition numstat_field_ok :: "string \<Rightarrow> bool" where
  "numstat_field_ok f = (f = ''-'' \<or> py_int f \<noteq> None)"

lemma split_from_no_sep: "c \<notin> set s \<Longrightarrow> split_from [c] cur s = [rev cur @ s]"
  by (induction s arbitrary: cur) (auto simp: startswith_def)

lemma three_parts_has_tab:
  assumes "3 \<le> length (py_split [TAB] l)"
  shows "TAB \<in> set l"
proof (rule ccontr)
  assume "TAB \<notin> set l"
  then have "py_split [TAB] l = [l]"
    using split_from_no_sep [of TAB l "[]"] by (simp add: py_split_def)
  then show False using assms by simp
qed

lemma stat_step_numstat:
  assumes "3 \<le> length (py_split [TAB] l)"
    and "numstat_field_ok (py_split [TAB] l ! 0)" and "numstat_field_ok (py_split [TAB] l ! 1)"
  shows "stat_step (i, d, n) l =
     (i + numstat_value (py_split [TAB] l ! 0), d + numstat_value (py_split [TAB] l ! 1), n + 1)"
  using assms three_parts_has_tab [OF assms(1)]
  by (auto simp: stat_step_def Let_def numstat_value_def numstat_field_ok_def)

lemma stat_step_other:
  assumes "\<not> 3 \<le> length (py_split [TAB] l)"
  shows "stat_step (i, d, n) l = (i, d, n)"
  using assms by (auto simp: stat_step_def Let_def)

lemma foldl_stat_step:
  assumes "\<forall>l \<in> set ls. 3 \<le> length (py_split [TAB] l) \<longrightarrow>
      numstat_field_ok (py_split [TAB] l ! 0) \<and> numstat_field_ok (py_split [TAB] l ! 1)"
  shows "foldl stat_step (i, d, n) ls =
     (i + (\<Sum>l\<leftarrow>filter (\<lambda>l. 3 \<le> length (py_split [TAB] l)) ls.
             numstat_value (py_split [TAB] l ! 0)),
      d + (\<Sum>l\<leftarrow>filter (\<lambda>l. 3 \<le> length (py_split [TAB] l)) ls.
             numstat_value (py_split [TAB] l ! 1)),
      n + int (length (filter (\<lambda>l. 3 \<le> length (py_split [TAB] l)) ls)))"
  using assms
proof (induction ls arbitrary: i d n)
  case Nil
  then show ?case by simp
next
  case (Cons l ls)
  show ?case
  proof (cases "3 \<le> length (py_split [TAB] l)")
    case True
    then have "stat_step (i, d, n) l =
        (i + numstat_value (py_split [TAB] l ! 0), d + numstat_value (py_split [TAB] l ! 1), n + 1)"
      using Cons.prems by (intro stat_step_numstat) auto
    then show ?thesis using True Cons by simp
  next
    case False
    then show ?thesis using Cons by (simp add: stat_step_other)
  qed
qed

lemma parse_chunk_totals:
  assumes "parse_chunk f chunk = Some r"
  shows "(insertions r, deletions r, files_changed r) =
     foldl stat_step (0, 0, 0) (tl (py_split [NL] (strip chunk)))"
  using assms
  by (auto simp: parse_chunk_def Let_def split: if_splits list.splits prod.splits option.splits)

text \<open>
  C8.  For every chunk that yields a record and whose numstat lines have well-formed
  first and second fields, the record's insertions and deletions are the sums of
  the values of those fields over the numstat lines, \<^verbatim>\<open>-\<close> counting 0, and its
  files-changed count is the number of numstat lines.  The witness is the chunk
  with the stat lines \<open>(10, 2, a.py)\<close> and \<open>(5, 0, b.py)\<close>: 15, 2 and 2.
\<close>

theorem C8_numstat_totals:
  assumes "parse_chunk f chunk = Some r"
    and "\<forall>l \<in> set (numstat_lines chunk).
           numstat_field_ok (py_split [TAB] l ! 0) \<and> numstat_field_ok (py_split [TAB] l ! 1)"
  shows "insertions r = (\<Sum>l\<leftarrow>numstat_lines chunk. numstat_value (py_split [TAB] l ! 0))
     \<and> deletions r = (\<Sum>l\<leftarrow>numstat_lines chunk. numstat_value (py_split [TAB] l ! 1))
     \<and> files_changed r = int (length (numstat_lines chunk))
     \<and> numstat_value ''-'' = 0"
proof -
  let ?ls = "tl (py_split [NL] (strip chunk))"
  have ok: "\<forall>l \<in> set ?ls. 3 \<le> length (py_split [TAB] l) \<longrightarrow>
      numstat_field_ok (py_split [TAB] l ! 0) \<and> numstat_field_ok (py_split [TAB] l ! 1)"
    using assms(2) by (simp add: numstat_lines_def)
  have "(insertions r, deletions r, files_changed r) = foldl stat_step (0, 0, 0) ?ls"
    using assms(1) by (rule parse_chunk_totals)
  then show ?thesis
    unfolding foldl_stat_step [OF ok] numstat_lines_def by (simp add: numstat_value_def)
qed

text \<open>The chunk of the example, and the record \<open>get_history\<close> makes of it.\<close>

definition numstat_chunk :: string where
  "numstat_chunk =
     [NL] @ header_line ''c3d4'' ''Bob'' ''2024-02-03T09:30:00+00:00'' ''feat: add X''
     @ [NL, NL] @ numstat_line ''10'' ''2'' ''a.py'' @ [NL] @ numstat_line ''5'' ''0'' ''b.py''
     @ [NL]"

definition numstat_record :: "string CommitInfo" where
  "numstat_record =
     \<lparr>hash = ''c3d4'', author_name = ''Bob'', author_email = [],
      date = ''2024-02-03T09:30:00+00:00'', message = ''add X'',
      full_message = ''feat: add X'', category = ''features'', scope = None,
      is_breaking = False, breaking_description = None, insertions = 15, deletions = 2,
      files_changed = 2\<rparr>"

lemma numstat_chunk_lines:
  "numstat_lines numstat_chunk = [numstat_line ''10'' ''2'' ''a.py'', numstat_line ''5'' ''0'' ''b.py'']"
  by code_simp

lemma numstat_chunk_fields:
  "py_split [TAB] (numstat_line ''10'' ''2'' ''a.py'') = [''10'', ''2'', ''a.py'']"
  "py_split [TAB] (numstat_line ''5'' ''0'' ''b.py'') = [''5'', ''0'', ''b.py'']"
  by code_simp+

lemma numstat_chunk_values:
  "numstat_value ''10'' = 10" "numstat_value ''2'' = 2" "numstat_value ''5'' = 5"
  "numstat_value ''0'' = 0"
  "numstat_field_ok ''10''" "numstat_field_ok ''2''" "numstat_field_ok ''5''"
  "numstat_field_ok ''0''"
  by code_simp+

lemma numstat_chunk_parsed: "parse_chunk Some numstat_chunk = Some numstat_record"
  by code_simp

theorem C8_numstat_totals_witness:
  "(\<exists>r. parse_chunk Some numstat_chunk = Some r
        \<and> insertions r = 15 \<and> deletions r = 2 \<and> files_changed r = 2)
   \<and> numstat_lines numstat_chunk =
        [numstat_line ''10'' ''2'' ''a.py'', numstat_line ''5'' ''0'' ''b.py'']"
proof -
  obtain r where r: "parse_chunk Some numstat_chunk = Some r"
    using numstat_chunk_parsed by blast
  have ok: "\<forall>l \<in> set (numstat_lines numstat_chunk).
      numstat_field_ok (py_split [TAB] l ! 0) \<and> numstat_field_ok (py_split [TAB] l ! 1)"
    by (simp add: numstat_chunk_lines numstat_chunk_fields numstat_chunk_values)
  have "insertions r = 15 \<and> deletions r = 2 \<and> files_changed r = 2"
    using C8_numstat_totals [OF r ok]
    by (simp add: numstat_chunk_lines numstat_chunk_fields numstat_chunk_values)
  then show ?thesis using r numstat_chunk_lines by blast
qed

text \<open>
  A commit whose subject has no \<^verbatim>\<open>!\<close> marker and carries the text of a
  \<^verbatim>\<open>BREAKING CHANGE:\<close> trailer.  The log format of \<^verbatim>\<open>get_history\<close> asks \<^verbatim>\<open>git\<close> for
  the subject only (\<^verbatim>\<open>%s\<close>), so the subject is all of the message that the
  source ever holds: it is what \<^verbatim>\<open>full_message\<close> is set to.
\<close>

definition trailer_chunk :: string where
  "trailer_chunk =
     [NL] @ header_line ''e5f6'' ''Cy'' ''2024-03-04T12:00:00+00:00''
              ''feat(api): drop v1 BREAKING CHANGE: v1 endpoints removed''
     @ [NL]"

text \<open>
  C1 (the source does otherwise).  The category is the table's entry for \<^verbatim>\<open>feat\<close>,
  but the breaking flag is false although the message held in \<^verbatim>\<open>full_message\<close>
  contains \<^verbatim>\<open>BREAKING CHANGE:\<close>: the flag is \<^verbatim>\<open>bool(breaking)\<close>, the \<^verbatim>\<open>!\<close> group
  alone, and \<^verbatim>\<open>BREAKING_RE\<close> is never applied.
\<close>

theorem C1_breaking_trailer_ignored:
  "parse_chunk Some trailer_chunk =
     Some \<lparr>hash = ''e5f6'', author_name = ''Cy'', author_email = [],
           date = ''2024-03-04T12:00:00+00:00'',
           message = ''drop v1 BREAKING CHANGE: v1 endpoints removed'',
           full_message = ''feat(api): drop v1 BREAKING CHANGE: v1 endpoints removed'',
           category = ''features'', scope = Some ''api'', is_breaking = False,
           breaking_description = None, insertions = 0, deletions = 0, files_changed = 0\<rparr>"
  by code_simp

section \<open>The complexity analyzer\<close>

text \<open>
  Under \<^verbatim>\<open>re.IGNORECASE\<close> a letter of a pattern matches both its cases: \<open>ci c\<close>.
  (On ASCII text; Python also lets four letters beyond ASCII match \<^verbatim>\<open>i\<close>, \<^verbatim>\<open>s\<close>
  and \<^verbatim>\<open>k\<close>.)  \<open>keyword w\<close> is the pattern \<^verbatim>\<open>\bw\b\<close>.
\<close>

definition lower :: "char \<Rightarrow> char" where
  "lower c = (let n = (of_char c :: nat) in if 65 \<le> n \<and> n \<le> 90 then char_of (n + 32) else c)"

definition ci :: "char \<Rightarrow> rx" where
  "ci c = Chr (\<lambda>x. lower x = lower c)"

definition keyword :: "string \<Rightarrow> rx list" where
  "keyword w = WordB # map ci w @ [WordB]"

text \<open>
  \<^verbatim>\<open>ComplexityAnalyzer.COMPLEXITY_PATTERNS\<close>, in the order of the source.  The
  tenth is \<^verbatim>\<open>\b\?\s*.*\s*:\<close>, the next two are \<^verbatim>\<open>\b&&\<close> and \<^verbatim>\<open>\b\|\|\<close>.
\<close>

definition COMPLEXITY_PATTERNS :: "(rx list \<times> nat) list" where
  "COMPLEXITY_PATTERNS =
     [(keyword ''if'', 1),
      (keyword ''elseif'', 1),
      (keyword ''else'', 1),
      (keyword ''for'', 1),
      (keyword ''while'', 1),
      (keyword ''do'', 1),
      (keyword ''switch'', 1),
      (keyword ''case'', 1),
      (keyword ''catch'', 1),
      ([WordB, lit CHR ''?'', Star isspace, Star (\<lambda>c. c \<noteq> NL), Star isspace, lit CHR '':''], 1),
      ([WordB, lit CHR ''&'', lit CHR ''&''], 1),
      ([WordB, lit CHR ''|'', lit CHR ''|''], 1),
      (keyword ''and'', 1),
      (keyword ''or'', 1)]"

text \<open>
  \<^verbatim>\<open>len(re.findall(pattern, code))\<close> and \<^verbatim>\<open>re.sub(pattern, '', code)\<close>: the subject is
  scanned from left to right, a match is tried at each position, and the scan
  goes on where the match ended.  \<open>p\<close> is the character before the position,
  after a match the last character it consumed.  Every pattern of the source
  that is counted or removed consumes a character; the branch for a match that
  consumes nothing (it moves on by one character) is never taken by them.
\<close>

definition consumed_last :: "string \<Rightarrow> string \<Rightarrow> char option" where
  "consumed_last s rest = Some (last (take (length s - length rest) s))"

function findall_count :: "rx list \<Rightarrow> char option \<Rightarrow> string \<Rightarrow> nat" where
  "findall_count r p [] = (case rx_match r p [] [] of None \<Rightarrow> 0 | Some m \<Rightarrow> 1)"
| "findall_count r p (x # xs) =
     (case rx_match r p (x # xs) [] of
        None \<Rightarrow> findall_count r (Some x) xs
      | Some (rest, groups) \<Rightarrow>
          if length rest < length (x # xs)
          then Suc (findall_count r (consumed_last (x # xs) rest) rest)
          else Suc (findall_count r (Some x) xs))"
  by pat_completeness auto
termination
  by (relation "measure (\<lambda>(r, p, s). length s)") auto

function re_sub_empty :: "rx list \<Rightarrow> char option \<Rightarrow> string \<Rightarrow> string" where
  "re_sub_empty r p [] = []"
| "re_sub_empty r p (x # xs) =
     (case rx_match r p (x # xs) [] of
        None \<Rightarrow> x # re_sub_empty r (Some x) xs
      | Some (rest, groups) \<Rightarrow>
          if length rest < length (x # xs)
          then re_sub_empty r (consumed_last (x # xs) rest) rest
          else x # re_sub_empty r (Some x) xs)"
  by pat_completeness auto
termination
  by (relation "measure (\<lambda>(r, p, s). length s)") auto

text \<open>\<^verbatim>\<open>ComplexityAnalyzer.calculate_cyclomatic_complexity\<close>: the loop over the patterns.\<close>

definition calculate_cyclomatic_complexity :: "string \<Rightarrow> nat" where
  "calculate_cyclomatic_complexity code =
     foldl (\<lambda>complexity (pattern, weight). complexity + findall_count pattern None code * weight)
       1 COMPLEXITY_PATTERNS"

text \<open>
  \<^verbatim>\<open>ComplexityAnalyzer.calculate_maintainability_index(loc, complexity, comments)\<close>;
  the constants \<^verbatim>\<open>5.2\<close>, \<^verbatim>\<open>0.23\<close> and \<^verbatim>\<open>16.2\<close> are the fractions they spell.
\<close>

definition calculate_maintainability_index :: "int \<Rightarrow> int \<Rightarrow> int \<Rightarrow> real" where
  "calculate_maintainability_index loc complexity comments =
     (if loc = 0 then 100
      else
        let sloc = loc - comments;
            mi = max 0 (171 - (52 / 10) * real_of_int complexity
                          - (23 / 100) * real_of_int complexity
                          - (162 / 10) * real_of_int (max 1 sloc) / 100)
        in min 100 (mi * 100 / 171))"

text \<open>
  \<^verbatim>\<open>s.endswith(p)\<close>, and the test of the list comprehension that counts the comment
  lines in \<^verbatim>\<open>calculate_code_metrics\<close>.
\<close>

definition endswith :: "string \<Rightarrow> string \<Rightarrow> bool" where
  "endswith s p = (length p \<le> length s \<and> drop (length s - length p) s = p)"

definition is_comment_line :: "string \<Rightarrow> bool" where
  "is_comment_line l =
     (startswith (strip l) ''#'' \<or> startswith (strip l) ''//'' \<or> startswith (strip l) ''*''
      \<or> (startswith (strip l) ''/*'' \<and> endswith (strip l) ''*/''))"

text \<open>
  The dictionary \<^verbatim>\<open>calculate_code_metrics\<close> returns, with its entries \<^verbatim>\<open>loc\<close>,
  \<^verbatim>\<open>sloc\<close>, \<^verbatim>\<open>comment_lines\<close>, \<^verbatim>\<open>complexity\<close> and \<^verbatim>\<open>maintainability_index\<close>.  The
  entries \<^verbatim>\<open>functions\<close>, \<^verbatim>\<open>classes\<close> and \<^verbatim>\<open>complexity_per_function\<close>, which no other
  entry depends on, are left out.
\<close>

record CodeMetrics =
  cm_loc :: int
  cm_sloc :: int
  cm_comment_lines :: int
  cm_complexity :: int
  cm_maintainability_index :: real

text \<open>
  The four \<^verbatim>\<open>re.sub\<close> calls that strip the comments: \<^verbatim>\<open>#.*$\<close> under
  \<^verbatim>\<open>re.MULTILINE\<close>, \<^verbatim>\<open>//.*$\<close> with no flag (so \<^verbatim>\<open>$\<close> is the end of the whole text),
  \<^verbatim>\<open>/\*.*?\*/\<close> and \<^verbatim>\<open><!--.*?-->\<close> under \<^verbatim>\<open>re.DOTALL\<close>.
\<close>

definition strip_comments :: "string \<Rightarrow> string" where
  "strip_comments code =
     (let s1 = re_sub_empty [lit CHR ''#'', Star (\<lambda>c. c \<noteq> NL), Eol] None code;
          s2 = re_sub_empty [lit CHR ''/'', lit CHR ''/'', Star (\<lambda>c. c \<noteq> NL), Eos] None s1;
          s3 = re_sub_empty [lit CHR ''/'', lit CHR ''*'', Lazy (\<lambda>c. True), lit CHR ''*'', lit CHR ''/''] None s2;
          s4 = re_sub_empty
                 [lit CHR ''<'', lit CHR ''!'', lit CHR ''-'', lit CHR ''-'', Lazy (\<lambda>c. True),
                  lit CHR ''-'', lit CHR ''-'', lit CHR ''>''] None s3
      in s4)"

text \<open>
  \<^verbatim>\<open>ComplexityAnalyzer.calculate_code_metrics(file_path, lines)\<close>.  Its call of
  \<open>calculate_maintainability_index\<close> passes \<^verbatim>\<open>code_lines\<close>, the number of lines less
  the comment lines, as \<open>loc\<close>, and the comment lines again as \<open>comments\<close>.
\<close>

definition calculate_code_metrics :: "string \<Rightarrow> string list \<Rightarrow> CodeMetrics" where
  "calculate_code_metrics file_path lines =
     (let code = concat lines;
          stripped_code = strip_comments code;
          total_lines = int (length lines);
          comment_lines = int (length (filter is_comment_line lines));
          code_lines = total_lines - comment_lines;
          complexity = int (calculate_cyclomatic_complexity stripped_code);
          maintainability = calculate_maintainability_index code_lines complexity comment_lines
      in \<lparr>cm_loc = total_lines, cm_sloc = code_lines, cm_comment_lines = comment_lines,
          cm_complexity = complexity, cm_maintainability_index = maintainability\<rparr>)"


section \<open>Properties of the complexity analyzer\<close>

text \<open>
  C5 (the source does otherwise).  In \<^verbatim>\<open>a && b\<close> and \<^verbatim>\<open>a || b\<close> the operator is
  not counted: the complexity is 1.  The patterns are \<^verbatim>\<open>\b&&\<close> and \<^verbatim>\<open>\b\|\|\<close>, and
  there is no word boundary between a blank and the operator.  Written right
  after the identifier the operator is counted.
\<close>

theorem C5_operator_after_space_not_counted:
  "calculate_cyclomatic_complexity ''a && b'' = 1
   \<and> calculate_cyclomatic_complexity ''a || b'' = 1
   \<and> calculate_cyclomatic_complexity ''a&& b'' = 2
   \<and> calculate_cyclomatic_complexity ''a|| b'' = 2"
  by code_simp

text \<open>
  Two files: one comment line and three lines of code; and one comment line.
\<close>

definition commented_file :: "string list" where
  "commented_file = [''# c'' @ [NL], ''x'' @ [NL], ''y'' @ [NL], ''z'' @ [NL]]"

definition comment_only_file :: "string list" where
  "comment_only_file = [''# only a comment'' @ [NL]]"

lemma commented_file_counts:
  "int (length commented_file) = 4"
  "int (length (filter is_comment_line commented_file)) = 1"
  "calculate_cyclomatic_complexity (strip_comments (concat commented_file)) = 1"
  "int (length comment_only_file) = 1"
  "int (length (filter is_comment_line comment_only_file)) = 1"
  "calculate_cyclomatic_complexity (strip_comments (concat comment_only_file)) = 1"
  by code_simp+

text \<open>
  C2 (the source does otherwise).  For the file of four lines with one comment
  line the index is computed with \<open>sloc = 4 - 1 - 1 = 2\<close>: it is \<open>27541 / 285\<close>,
  where the formula with \<open>sloc = 4 - 1 = 3\<close> gives \<open>27514 / 285\<close>.  For the file
  of one comment line the index is 100, the value for no lines, where the formula
  with \<open>sloc = max(1, 1 - 1)\<close> gives \<open>27568 / 285\<close>.
\<close>

theorem C2_comment_lines_subtracted_twice:
  "calculate_code_metrics ''f.py'' commented_file =
     \<lparr>cm_loc = 4, cm_sloc = 3, cm_comment_lines = 1, cm_complexity = 1,
      cm_maintainability_index = 27541 / 285\<rparr>
   \<and> min 100 (max 0 (171 - (52 / 10) * 1 - (23 / 100) * 1 - (162 / 10) * max 1 (4 - 1) / 100)
               * 100 / 171) = (27514 / 285 :: real)
   \<and> calculate_code_metrics ''f.py'' comment_only_file =
     \<lparr>cm_loc = 1, cm_sloc = 0, cm_comment_lines = 1, cm_complexity = 1,
      cm_maintainability_index = 100\<rparr>
   \<and> min 100 (max 0 (171 - (52 / 10) * 1 - (23 / 100) * 1 - (162 / 10) * max 1 (1 - 1) / 100)
               * 100 / 171) = (27568 / 285 :: real)"
  by (simp add: calculate_code_metrics_def Let_def commented_file_counts
      calculate_maintainability_index_def)

section \<open>The structural extractor, Python files\<close>

text \<open>
  The dataclass \<^verbatim>\<open>ClassInfo\<close>, and \<^verbatim>\<open>CodebaseAnalyzer._parse_code_file\<close> with its
  helpers for \<^verbatim>\<open>language == 'python'\<close>: with that language the branches for the
  other languages are not entered.  The leading underscore of the helpers' names
  is dropped.
\<close>

record ClassInfo =
  name :: string
  file_path :: string
  line_number :: int
  class_type :: string
  language :: string
  is_test :: bool
  docstring :: "string option"
  methods :: "string list"
  bases :: "string list"
  code_snippet :: "string option"
  complexity :: int

text \<open>
  The three patterns: \<^verbatim>\<open>^class\s+(\w+)(?:\(([^)]+)\))?\s*:\<close> and \<^verbatim>\<open>^def\s+(\w+)\s*\(\<close>,
  matched against the stripped line, and \<^verbatim>\<open>^    def\s+(\w+)\<close> (four blanks),
  matched against the line as it is.
\<close>

definition lits :: "string \<Rightarrow> rx list" where
  "lits w = map lit w"

definition CLASS_RE :: "rx list" where
  "CLASS_RE =
     Bos # lits ''class'' @
     [Plus isspace, Grp 1 [Plus isword],
      Opt [lit CHR ''('', Grp 2 [Plus (\<lambda>c. c \<noteq> CHR '')'')], lit CHR '')''],
      Star isspace, lit CHR '':'']"

definition DEF_RE :: "rx list" where
  "DEF_RE = Bos # lits ''def'' @ [Plus isspace, Grp 1 [Plus isword], Star isspace, lit CHR ''('']"

definition METHOD_RE :: "rx list" where
  "METHOD_RE = Bos # lits ''    def'' @ [Plus isspace, Grp 1 [Plus isword]]"

text \<open>\<^verbatim>\<open>len(line) - len(line.lstrip())\<close> and \<^verbatim>\<open>sub in s\<close>.\<close>

definition indent :: "string \<Rightarrow> nat" where
  "indent l = length l - length (lstrip l)"

fun contains :: "string \<Rightarrow> string \<Rightarrow> bool" where
  "contains sub [] = (sub = [])"
| "contains sub (x # xs) = (startswith (x # xs) sub \<or> contains sub xs)"

text \<open>
  \<^verbatim>\<open>_get_docstring(lines, start_line)\<close>, called with \<open>start_line \<ge> 1\<close> only.  \<open>DQ3\<close>
  and \<open>SQ3\<close> are the two triple quotes; \<^verbatim>\<open>next_line[3:-3]\<close> is the \<open>take\<close> of a
  \<open>drop\<close>.
\<close>

definition DQ3 :: string where
  "DQ3 = replicate 3 (CHR 0x22)"

definition SQ3 :: string where
  "SQ3 = replicate 3 (CHR 0x27)"

definition get_docstring :: "string list \<Rightarrow> nat \<Rightarrow> string option" where
  "get_docstring lines start_line =
     (if start_line > length lines then None
      else
        let next_line = (if start_line \<le> length lines then strip (lines ! (start_line - 1)) else [])
        in
          if startswith next_line DQ3 \<or> startswith next_line SQ3 then
            let end_marker = drop 3 next_line in
            if contains DQ3 end_marker \<or> contains SQ3 end_marker then
              let marker = (if contains DQ3 end_marker then DQ3 else SQ3) in
              if endswith next_line marker
              then Some (strip (take (length next_line - 3 - 3) (drop 3 next_line)))
              else None
            else None
          else None)"

text \<open>
  \<^verbatim>\<open>_get_code_snippet(lines, start_line)\<close> in its default \<^verbatim>\<open>'short'\<close> format: at most
  20 lines from the declaration on, each stripped on the right, the loop
  breaking after a line (not the first) for which \<open>snippet_stop\<close> holds.
\<close>

definition snippet_stop :: "string \<Rightarrow> bool" where
  "snippet_stop l =
     (let stripped = strip l in
      (stripped = [] \<or>
         (\<not> startswith stripped ''#'' \<and> \<not> startswith stripped ''//''
          \<and> \<not> startswith stripped ''*'' \<and> \<not> startswith l ''    ''
          \<and> \<not> startswith l [TAB]))
      \<and> \<not> startswith stripped ''@'')"

fun snippet_rest :: "string list \<Rightarrow> string list" where
  "snippet_rest [] = []"
| "snippet_rest (l # ls) = rstrip l # (if snippet_stop l then [] else snippet_rest ls)"

fun join :: "string \<Rightarrow> string list \<Rightarrow> string" where
  "join sep [] = []"
| "join sep [x] = x"
| "join sep (x # y # ys) = x @ sep @ join sep (y # ys)"

definition get_code_snippet :: "string list \<Rightarrow> nat \<Rightarrow> string option" where
  "get_code_snippet lines start_line =
     (if start_line > length lines then None
      else
        case take 20 (drop (start_line - 1) lines) of
          [] \<Rightarrow> None
        | l # ls \<Rightarrow> Some (join [NL] (rstrip l # snippet_rest ls)))"

text \<open>
  \<^verbatim>\<open>_get_python_methods(lines, start_line)\<close>: the loop over at most 100 lines after
  the class line, with the list of names found so far.
\<close>

fun methods_loop :: "nat \<Rightarrow> string list \<Rightarrow> string list \<Rightarrow> string list" where
  "methods_loop base_indent found [] = found"
| "methods_loop base_indent found (line # ls) =
     (let stripped = strip line in
      if stripped = [] then methods_loop base_indent found ls
      else if indent line \<le> base_indent \<and> stripped \<noteq> [] \<and> \<not> startswith stripped ''#''
      then found
      else
        case rx_match METHOD_RE None line [] of
          Some (rest, groups) \<Rightarrow>
            (case map_of groups 1 of
               Some m \<Rightarrow> methods_loop base_indent (found @ [m]) ls
             | None \<Rightarrow> methods_loop base_indent found ls)
        | None \<Rightarrow> methods_loop base_indent found ls)"

definition get_python_methods :: "string list \<Rightarrow> nat \<Rightarrow> string list" where
  "get_python_methods lines start_line =
     (if start_line > length lines then []
      else methods_loop (indent (lines ! (start_line - 1))) []
             (take 100 (drop start_line lines)))"

text \<open>
  The loop that sets \<^verbatim>\<open>is_method\<close>: it reads \<^verbatim>\<open>lines[j]\<close> for
  \<^verbatim>\<open>j in range(i, min(i + 5, len(lines) + 1))\<close> with \<^verbatim>\<open>j < len(lines)\<close>, the (at most)
  five lines after line \<open>i\<close>.
\<close>

fun is_method_loop :: "string list \<Rightarrow> bool" where
  "is_method_loop [] = False"
| "is_method_loop (next_line # ls) =
     (if strip next_line \<noteq> [] \<and> \<not> startswith (strip next_line) ''#''
      then (if indent next_line > 0 \<and> \<not> startswith (strip next_line) ''def''
            then True
            else is_method_loop ls)
      else is_method_loop ls)"

text \<open>
  One round of the loop \<^verbatim>\<open>for i, line in enumerate(lines, 1)\<close>: the entity it
  appends, if any.
\<close>

definition python_line :: "string \<Rightarrow> string list \<Rightarrow> nat \<Rightarrow> string \<Rightarrow> ClassInfo option" where
  "python_line fp lines i line =
     (let stripped = strip line in
      if stripped = [] \<or> startswith stripped ''#'' \<or> startswith stripped ''//''
         \<or> startswith stripped ''*''
      then None
      else
        case rx_match CLASS_RE None stripped [] of
          Some (rest, groups) \<Rightarrow>
            Some \<lparr>name = (case map_of groups 1 of Some n \<Rightarrow> n | None \<Rightarrow> []),
                  file_path = fp, line_number = int i, class_type = ''class'',
                  language = ''python'', is_test = False,
                  docstring = get_docstring lines i,
                  methods = get_python_methods lines i,
                  bases = (case map_of groups 2 of
                             Some g \<Rightarrow> if g \<noteq> [] then map strip (py_split '','' g) else []
                           | None \<Rightarrow> []),
                  code_snippet = get_code_snippet lines i, complexity = 0\<rparr>
        | None \<Rightarrow>
            (case rx_match DEF_RE None stripped [] of
               Some (rest, groups) \<Rightarrow>
                 if i \<le> length lines then
                   (if is_method_loop (take 5 (drop i lines)) then None
                    else
                      Some \<lparr>name = (case map_of groups 1 of Some n \<Rightarrow> n | None \<Rightarrow> []),
                            file_path = fp, line_number = int i, class_type = ''function'',
                            language = ''python'', is_test = False,
                            docstring = get_docstring lines i, methods = [], bases = [],
                            code_snippet = get_code_snippet lines i, complexity = 0\<rparr>)
                 else None
             | None \<Rightarrow> None))"

fun parse_loop :: "string \<Rightarrow> string list \<Rightarrow> ClassInfo list \<Rightarrow> (nat \<times> string) list \<Rightarrow> ClassInfo list" where
  "parse_loop fp lines classes [] = classes"
| "parse_loop fp lines classes ((i, line) # rest) =
     parse_loop fp lines
       (case python_line fp lines i line of None \<Rightarrow> classes | Some e \<Rightarrow> classes @ [e])
       rest"

definition parse_code_file :: "string \<Rightarrow> string list \<Rightarrow> ClassInfo list" where
  "parse_code_file fp lines = parse_loop fp lines [] (zip [1 ..< Suc (length lines)] lines)"

section \<open>Properties of the structural extractor\<close>

text \<open>
  The name a line declares as a class, and as a method indented by four blanks;
  and a line that does not end the scan for methods of a class of indentation
  \<open>base_indent\<close>.
\<close>

definition class_name :: "string \<Rightarrow> string option" where
  "class_name l =
     (case rx_match CLASS_RE None (strip l) [] of
        Some (rest, groups) \<Rightarrow> map_of groups 1
      | None \<Rightarrow> None)"

definition method_name :: "string \<Rightarrow> string option" where
  "method_name l =
     (case rx_match METHOD_RE None l [] of
        Some (rest, groups) \<Rightarrow> map_of groups 1
      | None \<Rightarrow> None)"

definition inside_class :: "nat \<Rightarrow> string \<Rightarrow> bool" where
  "inside_class base_indent l =
     (strip l = [] \<or> base_indent < indent l \<or> startswith (strip l) ''#'')"

lemma rx_match_lit:
  assumes "rx_match (lit c # rs) p s caps = Some r"
  shows "\<exists>xs. s = c # xs \<and> rx_match rs (Some c) xs caps = Some r"
  using assms by (cases s) (auto simp: lit_def split: if_splits)

lemma rx_match_lits:
  assumes "rx_match (lits w @ rs) p s caps = Some r"
  shows "startswith s w"
  using assms
proof (induction w arbitrary: p s)
  case Nil
  then show ?case by (simp add: startswith_def)
next
  case (Cons c w)
  then obtain xs where xs: "s = c # xs" "rx_match (lits w @ rs) (Some c) xs caps = Some r"
    using rx_match_lit [of c "lits w @ rs" p s caps r] by (auto simp: lits_def)
  then have "startswith xs w" using Cons.IH by blast
  then show ?case using xs by (simp add: startswith_def)
qed

lemma class_match_prefix:
  assumes "rx_match CLASS_RE None s [] = Some r"
  shows "startswith s ''class''"
proof -
  have "rx_match (lits ''class'' @ [Plus isspace, Grp 1 [Plus isword],
      Opt [lit CHR ''('', Grp 2 [Plus (\<lambda>c. c \<noteq> CHR '')'')], lit CHR '')''],
      Star isspace, lit CHR '':'']) None s [] = Some r"
    using assms by (simp add: CLASS_RE_def)
  then show ?thesis by (rule rx_match_lits)
qed

lemma method_match_prefix:
  assumes "rx_match METHOD_RE None l [] = Some r"
  shows "startswith l ''    def''"
proof -
  have "rx_match (lits ''    def'' @ [Plus isspace, Grp 1 [Plus isword]]) None l [] = Some r"
    using assms by (simp add: METHOD_RE_def)
  then show ?thesis by (rule rx_match_lits)
qed

lemma rstrip_head: "\<not> isspace x \<Longrightarrow> \<exists>ys. rstrip (x # xs) = x # ys"
proof -
  assume nx: "\<not> isspace x"
  have "dropWhile isspace (rev xs @ [x]) = dropWhile isspace (rev xs) @ [x]"
    using nx by (induction "rev xs" arbitrary: xs) (auto simp: dropWhile_append)
  then show ?thesis by (simp add: rstrip_def)
qed

lemma method_line_shape:
  assumes "startswith l ''    def''"
  shows "indent l = 4" and "\<exists>ys. strip l = CHR ''d'' # ys"
proof -
  obtain t where l: "l = ''    def'' @ t"
    using assms by (metis append_take_drop_id startswith_def)
  have sp: "isspace CHR '' ''" "\<not> isspace CHR ''d''" by (simp_all add: isspace_def)
  have ls: "lstrip l = ''def'' @ t" using sp by (simp add: l lstrip_def)
  show "indent l = 4" by (simp add: indent_def ls) (simp add: l)
  show "\<exists>ys. strip l = CHR ''d'' # ys"
    using rstrip_head [OF sp(2), of "''ef'' @ t"] by (simp add: strip_def ls)
qed


lemma methods_loop_keeps: "set acc \<subseteq> set (methods_loop b acc w)"
proof (induction w arbitrary: acc)
  case Nil
  then show ?case by simp
next
  case (Cons l w)
  have "set acc \<subseteq> set (methods_loop b (acc @ [m]) w)" for m
    using Cons [of "acc @ [m]"] by auto
  then show ?case
    using Cons [of acc] by (auto simp: Let_def split: option.splits)
qed

lemma methods_loop_finds:
  assumes "j < length w" and "\<forall>k<j. inside_class b (w ! k)"
    and "method_name (w ! j) = Some mn" and "b < 4"
  shows "mn \<in> set (methods_loop b acc w)"
  using assms
proof (induction w arbitrary: j acc)
  case Nil
  then show ?case by simp
next
  case (Cons l w)
  show ?case
  proof (cases j)
    case 0
    with Cons.prems obtain rest groups where
      g: "rx_match METHOD_RE None l [] = Some (rest, groups)" "map_of groups 1 = Some mn"
      by (auto simp: method_name_def split: option.splits)
    have shape: "indent l = 4" "strip l \<noteq> []"
      using method_line_shape [OF method_match_prefix [OF g(1)]] by auto
    have "mn \<in> set (methods_loop b (acc @ [mn]) w)"
      using methods_loop_keeps [of "acc @ [mn]" b w] by auto
    then show ?thesis
      using g shape Cons.prems(4) by (simp add: Let_def)
  next
    case (Suc j')
    have ih: "mn \<in> set (methods_loop b acc' w)" for acc'
    proof (rule Cons.IH)
      show "j' < length w" using Cons.prems(1) Suc by simp
      show "\<forall>k<j'. inside_class b (w ! k)"
        using Cons.prems(2) Suc by (metis Suc_less_eq nth_Cons_Suc)
      show "method_name (w ! j') = Some mn" using Cons.prems(3) Suc by simp
      show "b < 4" by (rule Cons.prems(4))
    qed
    have "inside_class b l" using Cons.prems(2) Suc by (metis nth_Cons_0 zero_less_Suc)
    then show ?thesis
      using ih by (auto simp: inside_class_def Let_def split: option.splits)
  qed
qed

lemma parse_loop_map_filter:
  "parse_loop fp lines acc ps
     = acc @ List.map_filter (\<lambda>(i, l). python_line fp lines i l) ps"
  by (induction ps arbitrary: acc) (auto simp: List.map_filter_simps split: option.splits)

lemma map_filter_concat:
  "List.map_filter f xs = concat (map (\<lambda>x. case f x of None \<Rightarrow> [] | Some y \<Rightarrow> [y]) xs)"
  by (induction xs) (auto simp: List.map_filter_simps split: option.splits)

lemma enumerate_from_1:
  "zip [1 ..< Suc (length ls)] ls = map (\<lambda>i. (Suc i, ls ! i)) [0 ..< length ls]"
  by (rule nth_equalityI) (auto simp del: upt_Suc)

text \<open>The entities (none or one) that line \<open>i\<close>, counted from 0, contributes.\<close>

definition entities_at :: "string \<Rightarrow> string list \<Rightarrow> nat \<Rightarrow> ClassInfo list" where
  "entities_at fp lines i =
     (case python_line fp lines (Suc i) (lines ! i) of None \<Rightarrow> [] | Some e \<Rightarrow> [e])"

lemma parse_code_file_concat:
  "parse_code_file fp lines = concat (map (entities_at fp lines) [0 ..< length lines])"
proof -
  have "parse_code_file fp lines
      = List.map_filter (\<lambda>(i, l). python_line fp lines i l)
          (map (\<lambda>i. (Suc i, lines ! i)) [0 ..< length lines])"
    unfolding parse_code_file_def parse_loop_map_filter enumerate_from_1 by simp
  moreover have "entities_at fp lines
      = (\<lambda>i. case python_line fp lines (Suc i) (lines ! i) of None \<Rightarrow> [] | Some e \<Rightarrow> [e])"
    by (rule ext) (simp add: entities_at_def)
  ultimately show ?thesis
    by (simp add: map_filter_concat comp_def)
qed

lemma python_line_number: "python_line fp lines i l = Some e \<Longrightarrow> line_number e = int i"
  by (auto simp: python_line_def Let_def split: if_splits option.splits)

lemma concat_single_index:
  "concat (map (\<lambda>i. if i = c then v else []) [0 ..< n]) = (if c < n then v else [])"
  by (induction n) auto

lemma entities_of_line:
  assumes "c < length lines"
  shows "filter (\<lambda>e. line_number e = int (Suc c)) (parse_code_file fp lines)
     = entities_at fp lines c"
proof -
  have one: "filter (\<lambda>e. line_number e = int (Suc c)) (entities_at fp lines i)
      = (if i = c then entities_at fp lines c else [])" for i
    by (auto simp: entities_at_def dest: python_line_number split: option.splits)
  have "filter (\<lambda>e. line_number e = int (Suc c)) (parse_code_file fp lines)
      = concat (map (\<lambda>i. if i = c then entities_at fp lines c else []) [0 ..< length lines])"
    unfolding parse_code_file_concat filter_concat map_map comp_def one ..
  then show ?thesis using assms by (simp add: concat_single_index)
qed


lemma class_prefix_not_comment:
  assumes "startswith s ''class''"
  shows "s \<noteq> []" "\<not> startswith s ''#''" "\<not> startswith s ''//''" "\<not> startswith s ''*''"
  using assms by (cases s; auto simp: startswith_def)+

lemma class_line_entity:
  assumes "c < length lines" and "class_name (lines ! c) = Some cn"
  shows "\<exists>e. python_line fp lines (Suc c) (lines ! c) = Some e \<and> class_type e = ''class''
      \<and> name e = cn
      \<and> methods e = methods_loop (indent (lines ! c)) [] (take 100 (drop (Suc c) lines))"
proof -
  obtain rest groups where
    g: "rx_match CLASS_RE None (strip (lines ! c)) [] = Some (rest, groups)"
       "map_of groups 1 = Some cn"
    using assms(2) by (auto simp: class_name_def split: option.splits)
  note nc = class_prefix_not_comment [OF class_match_prefix [OF g(1)]]
  show ?thesis
    using g nc assms(1) by (simp add: python_line_def get_python_methods_def)
qed

text \<open>
  C9 (amended).  Let line \<open>c\<close> (counted from 0) declare a class \<open>cn\<close> with less
  than four characters of indentation, and line \<open>m\<close>, one of the 100 lines after
  it, declare a method \<open>mn\<close> indented by exactly four blanks, every line between
  them being blank, a comment or indented deeper than the class line.  Then the
  extractor emits exactly one entity for line \<open>c + 1\<close>, a class named \<open>cn\<close> whose
  methods list contains \<open>mn\<close>.
\<close>

theorem C9_class_with_four_space_method:
  assumes "c < m" and "m < length lines" and "m \<le> c + 100"
    and "class_name (lines ! c) = Some cn"
    and "method_name (lines ! m) = Some mn"
    and "indent (lines ! c) < 4"
    and "\<forall>k. c < k \<and> k < m \<longrightarrow> inside_class (indent (lines ! c)) (lines ! k)"
  shows "\<exists>e. filter (\<lambda>e. line_number e = int (Suc c)) (parse_code_file fp lines) = [e]
            \<and> class_type e = ''class'' \<and> name e = cn \<and> mn \<in> set (methods e)"
proof -
  have c: "c < length lines" using assms(1,2) by simp
  let ?w = "take 100 (drop (Suc c) lines)"
  obtain e where e: "python_line fp lines (Suc c) (lines ! c) = Some e"
      "class_type e = ''class''" "name e = cn"
      "methods e = methods_loop (indent (lines ! c)) [] ?w"
    using class_line_entity [OF c assms(4)] by blast
  have j: "m - Suc c < length ?w" using assms(1-3) by (simp, arith)
  have nth: "?w ! k = lines ! (Suc c + k)" if "k \<le> m - Suc c" for k
    using that assms(1-3) by simp
  have before: "\<forall>k<m - Suc c. inside_class (indent (lines ! c)) (?w ! k)"
    using assms(7) nth by simp
  have at: "method_name (?w ! (m - Suc c)) = Some mn"
    using assms(1,5) nth [of "m - Suc c"] by simp
  have "mn \<in> set (methods e)"
    unfolding e(4) using j before at assms(6) by (rule methods_loop_finds)
  moreover have "filter (\<lambda>e. line_number e = int (Suc c)) (parse_code_file fp lines) = [e]"
    unfolding entities_of_line [OF c] by (simp add: entities_at_def e(1))
  ultimately show ?thesis
    using e(2,3) by blast
qed

text \<open>
  Five small files: a class with a method indented by four blanks, the same with
  two blanks, a class whose one-line method follows a blank line and a comment,
  a function with an indented body, and a function on one line.
\<close>

definition four_space_class :: "string list" where
  "four_space_class =
     [''class A(B, C):'' @ [NL], ''    def m(self):'' @ [NL], ''        return 1'' @ [NL]]"

definition two_space_class :: "string list" where
  "two_space_class = [''class A:'' @ [NL], ''  def m(self):'' @ [NL], ''    return 1'' @ [NL]]"

definition commented_class :: "string list" where
  "commented_class =
     [''class A:'' @ [NL], [NL], ''    # about m'' @ [NL], ''    def m(self): pass'' @ [NL]]"

definition top_level_function :: "string list" where
  "top_level_function = [''def foo():'' @ [NL], ''    return 1'' @ [NL]]"

definition one_line_function :: "string list" where
  "one_line_function = [''def foo(): return 1'' @ [NL]]"

text \<open>
  C9 (as stated it fails).  With the method indented by two blanks the class
  entity is emitted with an empty methods list: the method pattern asks for four
  blanks.
\<close>

theorem C9_counterexample:
  "parse_code_file ''a.py'' two_space_class =
     [\<lparr>name = ''A'', file_path = ''a.py'', line_number = 1, class_type = ''class'',
       language = ''python'', is_test = False, docstring = None, methods = [], bases = [],
       code_snippet = Some (''class A:'' @ [NL] @ ''  def m(self):''), complexity = 0\<rparr>]"
  by code_simp

lemma four_space_class_facts:
  "class_name (four_space_class ! 0) = Some ''A''"
  "method_name (four_space_class ! 1) = Some ''m''"
  "indent (four_space_class ! 0) < 4"
  "length four_space_class = 3"
  by code_simp+

lemma commented_class_facts:
  "class_name (commented_class ! 0) = Some ''A''"
  "method_name (commented_class ! 3) = Some ''m''"
  "indent (commented_class ! 0) < 4"
  "length commented_class = 4"
  "inside_class (indent (commented_class ! 0)) (commented_class ! 1)"
  "inside_class (indent (commented_class ! 0)) (commented_class ! 2)"
  by code_simp+

theorem C9_class_with_four_space_method_witness:
  "class_name (four_space_class ! 0) = Some ''A''
   \<and> method_name (four_space_class ! 1) = Some ''m''
   \<and> (\<exists>e. filter (\<lambda>e. line_number e = 1) (parse_code_file ''a.py'' four_space_class) = [e]
          \<and> class_type e = ''class'' \<and> name e = ''A'' \<and> ''m'' \<in> set (methods e))
   \<and> class_name (commented_class ! 0) = Some ''A''
   \<and> method_name (commented_class ! 3) = Some ''m''
   \<and> (\<exists>e. filter (\<lambda>e. line_number e = 1) (parse_code_file ''a.py'' commented_class) = [e]
          \<and> class_type e = ''class'' \<and> name e = ''A'' \<and> ''m'' \<in> set (methods e))"
proof -
  have between: "\<forall>k. 0 < k \<and> k < 1 \<longrightarrow>
      inside_class (indent (four_space_class ! 0)) (four_space_class ! k)"
    by simp
  have first: "\<exists>e. filter (\<lambda>e. line_number e = int (Suc 0))
        (parse_code_file ''a.py'' four_space_class) = [e]
      \<and> class_type e = ''class'' \<and> name e = ''A'' \<and> ''m'' \<in> set (methods e)"
    using four_space_class_facts between
    by (intro C9_class_with_four_space_method [where m = 1]) simp_all
  have between': "\<forall>k. 0 < k \<and> k < 3 \<longrightarrow>
      inside_class (indent (commented_class ! 0)) (commented_class ! k)"
  proof (intro allI impI)
    fix k :: nat
    assume "0 < k \<and> k < 3"
    then have "k = 1 \<or> k = 2" by arith
    then show "inside_class (indent (commented_class ! 0)) (commented_class ! k)"
      using commented_class_facts(5,6) by auto
  qed
  have second: "\<exists>e. filter (\<lambda>e. line_number e = int (Suc 0))
        (parse_code_file ''a.py'' commented_class) = [e]
      \<and> class_type e = ''class'' \<and> name e = ''A'' \<and> ''m'' \<in> set (methods e)"
    using commented_class_facts between'
    by (intro C9_class_with_four_space_method [where m = 3]) simp_all
  show ?thesis
    using first second four_space_class_facts commented_class_facts by auto
qed

text \<open>
  C3 (the source does otherwise).  A \<^verbatim>\<open>def\<close> at column 0 whose body is indented on
  the next line yields no entity: the source takes any indented line after the
  declaration for the sign of a method.  Only a function without such a line,
  as the one-line function, is emitted.
\<close>

theorem C3_function_with_indented_body_dropped:
  "parse_code_file ''a.py'' top_level_function = []
   \<and> parse_code_file ''a.py'' one_line_function =
       [\<lparr>name = ''foo'', file_path = ''a.py'', line_number = 1, class_type = ''function'',
         language = ''python'', is_test = False, docstring = None, methods = [], bases = [],
         code_snippet = Some ''def foo(): return 1'', complexity = 0\<rparr>]"
  by code_simp

end
